theory Spec2Isabelle
  imports Complex_Main "HOL-Library.Sublist" "HOL-Library.Multiset" "HOL-Library.Word"
begin

section \<open>ChronoMerge PDF: the file list and the merge of \<open>src/App.tsx\<close>\<close>

text \<open>
  The application keeps four pieces of React state (\<open>files\<close>, \<open>isMerging\<close>,
  \<open>mergedPdfUrl\<close>, \<open>error\<close>) and changes them through \<open>addFiles\<close>, \<open>removeFile\<close>,
  the inline handler of the "Clear All" button and \<open>mergeFiles\<close>. Each handler is a function
  from the state to the state it leaves behind; the asynchronous \<open>mergeFiles\<close> is taken as
  one step, from the click to the end of its \<open>finally\<close> block. JavaScript numbers are modelled by \<open>int\<close> where
  the code holds integers (\<open>File.lastModified\<close>) and by \<open>rat\<close> where it measures lengths on a
  page: every finite double is a rational, and the rounding of the double operations is not
  modelled.
\<close>

subsection \<open>Data\<close>

type_synonym bytes = "8 word list"

text \<open>The browser's \<open>File\<close>: \<open>mime_type\<close> is \<open>File.type\<close>, \<open>content\<close> is what
  \<open>arrayBuffer()\<close> resolves to.\<close>

record File =
  name :: string
  mime_type :: string
  lastModified :: int
  content :: bytes

datatype item_kind = Pdf | Image

text \<open>An object URL stands for the blob it was created from.\<close>

datatype object_url = ObjectURL bytes

text \<open>\<open>interface FileWithMetadata\<close>; \<open>item_id\<close>, \<open>item_file\<close> and \<open>item_type\<close> are its fields \<open>id\<close>, \<open>file\<close> and
  \<open>type\<close>.\<close>

record FileWithMetadata =
  item_id :: string
  item_file :: File
  item_type :: item_kind
  timestamp :: int
  preview :: "object_url option"

record app_state =
  files :: "FileWithMetadata list"
  isMerging :: bool
  mergedPdfUrl :: "object_url option"
  error :: "string option"

definition initial_state :: app_state where
  "initial_state = \<lparr>files = [], isMerging = False, mergedPdfUrl = None, error = None\<rparr>"

subsection \<open>The pdf-lib interface\<close>

text \<open>
  pdf-lib is not part of the repository; what \<open>mergeFiles\<close> calls is taken as a parameter.
  A call that throws returns \<open>None\<close>.
  \<^item> \<open>load\<close>: \<open>PDFDocument.load\<close>, the pages of the parsed document in their internal order;
  \<^item> \<open>embedJpg\<close>, \<open>embedPng\<close>: the embedded image with its native size;
  \<^item> \<open>defaultPageSize\<close>: the size of the page that \<open>addPage()\<close> creates;
  \<^item> \<open>serialize\<close>: the writer at the end of \<open>save()\<close>, from the pages of the document to
    the bytes of the PDF.
\<close>

datatype PDFImage = PDFImage (img_width: rat) (img_height: rat)

record DrawImageOptions =
  opt_x :: rat
  opt_y :: rat
  opt_width :: rat
  opt_height :: rat

datatype PDFPage =
    CopiedPage bytes
  | ImagePage "rat \<times> rat" PDFImage DrawImageOptions
  | BlankPage "rat \<times> rat"

record pdflib =
  load :: "bytes \<Rightarrow> bytes list option"
  embedJpg :: "bytes \<Rightarrow> PDFImage option"
  embedPng :: "bytes \<Rightarrow> PDFImage option"
  defaultPageSize :: "rat \<times> rat"
  serialize :: "PDFPage list \<Rightarrow> bytes option"

definition getPageIndices :: "bytes list \<Rightarrow> nat list" where
  "getPageIndices pdfDoc = [0..<length pdfDoc]"

definition copyPages :: "bytes list \<Rightarrow> nat list \<Rightarrow> PDFPage list" where
  "copyPages pdfDoc indices = map (\<lambda>i. CopiedPage (pdfDoc ! i)) indices"

text \<open>\<open>PDFDocument.save\<close> of pdf-lib takes the option \<open>addDefaultPage\<close>, true unless
  the caller says otherwise: a document that has no page gets one blank page of the default
  size before it is written. \<open>mergeFiles\<close> calls \<open>save()\<close> with no options.\<close>

definition addDefaultPage :: "pdflib \<Rightarrow> PDFPage list \<Rightarrow> PDFPage list" where
  "addDefaultPage lib doc = (if length doc = 0 then [BlankPage (defaultPageSize lib)] else doc)"

definition save :: "pdflib \<Rightarrow> PDFPage list \<Rightarrow> bytes option" where
  "save lib doc = serialize lib (addDefaultPage lib doc)"

text \<open>Modelled from the spec: \<open>PDFImage.scaleToFit\<close> belongs to pdf-lib and is not under
  \<open>src/\<close>. The spec gives the scale factor as
  \<open>min(availableWidth/imageWidth, availableHeight/imageHeight)\<close>, applied to both sides.\<close>

definition scaleToFit :: "PDFImage \<Rightarrow> rat \<Rightarrow> rat \<Rightarrow> rat \<times> rat" where
  "scaleToFit img w h =
     (let imgWidthScale = w / img_width img;
          imgHeightScale = h / img_height img;
          scale = min imgWidthScale imgHeightScale
      in (scale * img_width img, scale * img_height img))"

subsection \<open>\<open>addFiles\<close>, \<open>removeFile\<close>, "Clear All"\<close>

definition isPdf :: "File \<Rightarrow> bool" where
  "isPdf f = (mime_type f = ''application/pdf'')"

definition isImage :: "File \<Rightarrow> bool" where
  "isImage f = prefix ''image/'' (mime_type f)"

text \<open>\<open>rnd i\<close> is the string that the \<open>i\<close>-th call of
  \<open>Math.random().toString(36).substring(7)\<close> returns.\<close>

definition toMetadata :: "(nat \<Rightarrow> string) \<Rightarrow> nat \<times> File \<Rightarrow> FileWithMetadata" where
  "toMetadata rnd p =
     \<lparr>item_id = rnd (fst p),
      item_file = snd p,
      item_type = (if mime_type (snd p) = ''application/pdf'' then Pdf else Image),
      timestamp = lastModified (snd p),
      preview = (if isImage (snd p) then Some (ObjectURL (content (snd p))) else None)\<rparr>"

definition validFiles :: "(nat \<Rightarrow> string) \<Rightarrow> File list \<Rightarrow> FileWithMetadata list" where
  "validFiles rnd newFiles =
     map (toMetadata rnd) (enumerate 0 (filter (\<lambda>f. isPdf f \<or> isImage f) newFiles))"

definition skipped_message :: string where
  "skipped_message = ''Some files were skipped. Only PDF and Image files are supported.''"

definition merge_error_message :: string where
  "merge_error_message =
     ''An error occurred while merging the files. Please ensure all files are valid.''"

text \<open>\<open>Array.prototype.sort\<close> is stable, and the comparator \<open>a.timestamp - b.timestamp\<close>
  orders by timestamp: the result is the stable sort by that key.\<close>

definition addFiles :: "(nat \<Rightarrow> string) \<Rightarrow> File list \<Rightarrow> app_state \<Rightarrow> app_state" where
  "addFiles rnd newFiles s =
     (let valid = validFiles rnd newFiles
      in s\<lparr>error := (if length valid < length newFiles then Some skipped_message else None),
           files := sort_key timestamp (files s @ valid),
           mergedPdfUrl := None\<rparr>)"

text \<open>The revocation of the removed item's preview URL changes nothing in the state.\<close>

definition removeFile :: "string \<Rightarrow> app_state \<Rightarrow> app_state" where
  "removeFile i s =
     s\<lparr>files := filter (\<lambda>f. item_id f \<noteq> i) (files s),
       mergedPdfUrl := None\<rparr>"

text \<open>The "Clear All" button: \<open>onClick={() => setFiles([])}\<close>.\<close>

definition clearAll :: "app_state \<Rightarrow> app_state" where
  "clearAll s = s\<lparr>files := []\<rparr>"

subsection \<open>\<open>mergeFiles\<close>\<close>

text \<open>Lines 113 to 121: a new page of the default size, the image scaled to the page less
  40 units each way and drawn at the offsets that the code computes.\<close>

definition imagePage :: "pdflib \<Rightarrow> PDFImage \<Rightarrow> PDFPage" where
  "imagePage lib img =
     (let width = fst (defaultPageSize lib);
          height = snd (defaultPageSize lib);
          dims = scaleToFit img (width - 40) (height - 40)
      in ImagePage (width, height) img
           \<lparr>opt_x = (width - fst dims) / 2,
            opt_y = (height - snd dims) / 2,
            opt_width = fst dims,
            opt_height = snd dims\<rparr>)"

text \<open>The \<open>for\<close> loop over \<open>files\<close>; the third argument is the content of \<open>mergedPdf\<close> so
  far. \<open>None\<close> is an exception thrown inside the \<open>try\<close> block.\<close>

fun mergeLoop :: "pdflib \<Rightarrow> FileWithMetadata list \<Rightarrow> PDFPage list \<Rightarrow> PDFPage list option" where
  "mergeLoop lib [] mergedPdf = Some mergedPdf"
| "mergeLoop lib (item # rest) mergedPdf =
     (if item_type item = Pdf then
        (case load lib (content (item_file item)) of
           None \<Rightarrow> None
         | Some pdfDoc \<Rightarrow>
             mergeLoop lib rest (mergedPdf @ copyPages pdfDoc (getPageIndices pdfDoc)))
      else if mime_type (item_file item) = ''image/jpeg'' \<or> mime_type (item_file item) = ''image/jpg'' then
        (case embedJpg lib (content (item_file item)) of
           None \<Rightarrow> None
         | Some img \<Rightarrow> mergeLoop lib rest (mergedPdf @ [imagePage lib img]))
      else if mime_type (item_file item) = ''image/png'' then
        (case embedPng lib (content (item_file item)) of
           None \<Rightarrow> None
         | Some img \<Rightarrow> mergeLoop lib rest (mergedPdf @ [imagePage lib img]))
      else mergeLoop lib rest mergedPdf)"

text \<open>The body of the \<open>try\<close> block: the loop, then \<open>mergedPdf.save()\<close>.\<close>

definition mergeBytes :: "pdflib \<Rightarrow> FileWithMetadata list \<Rightarrow> bytes option" where
  "mergeBytes lib items =
     (case mergeLoop lib items [] of
        None \<Rightarrow> None
      | Some mergedPdf \<Rightarrow> save lib mergedPdf)"

text \<open>\<open>mergeFiles\<close> run to completion: the early return on an empty list, the \<open>catch\<close> that
  sets the message, the \<open>finally\<close> that resets \<open>isMerging\<close>.\<close>

definition mergeFiles :: "pdflib \<Rightarrow> app_state \<Rightarrow> app_state" where
  "mergeFiles lib s =
     (if length (files s) = 0 then s
      else
        (case mergeBytes lib (files s) of
           None \<Rightarrow> s\<lparr>isMerging := False, error := Some merge_error_message\<rparr>
         | Some pdfBytes \<Rightarrow>
             s\<lparr>isMerging := False, error := None,
               mergedPdfUrl := Some (ObjectURL pdfBytes)\<rparr>))"

subsection \<open>Sessions\<close>

text \<open>What the user can do, and the state after a sequence of such events from the initial
  state.\<close>

datatype event =
    AddFiles "nat \<Rightarrow> string" "File list"
  | RemoveFile string
  | ClearAll
  | MergeFiles

fun step :: "pdflib \<Rightarrow> app_state \<Rightarrow> event \<Rightarrow> app_state" where
  "step lib s (AddFiles rnd newFiles) = addFiles rnd newFiles s"
| "step lib s (RemoveFile i) = removeFile i s"
| "step lib s ClearAll = clearAll s"
| "step lib s MergeFiles = mergeFiles lib s"

definition run :: "pdflib \<Rightarrow> event list \<Rightarrow> app_state" where
  "run lib evs = foldl (step lib) initial_state evs"

subsection \<open>Notions of the specification\<close>

text \<open>The pages that one item of the list contributes to the output: the pages of a source
  PDF in their internal order, one new page for a JPEG or PNG image, nothing otherwise.\<close>

definition page_group :: "pdflib \<Rightarrow> FileWithMetadata \<Rightarrow> PDFPage list" where
  "page_group lib item =
     (if item_type item = Pdf then
        (case load lib (content (item_file item)) of
           None \<Rightarrow> []
         | Some pdfDoc \<Rightarrow> map CopiedPage pdfDoc)
      else if mime_type (item_file item) = ''image/jpeg'' \<or> mime_type (item_file item) = ''image/jpg'' then
        (case embedJpg lib (content (item_file item)) of
           None \<Rightarrow> []
         | Some img \<Rightarrow> [imagePage lib img])
      else if mime_type (item_file item) = ''image/png'' then
        (case embedPng lib (content (item_file item)) of
           None \<Rightarrow> []
         | Some img \<Rightarrow> [imagePage lib img])
      else [])"

text \<open>A supported item whose bytes are malformed: a PDF that does not parse, a JPEG or PNG
  that does not decode.\<close>

definition malformed :: "pdflib \<Rightarrow> FileWithMetadata \<Rightarrow> bool" where
  "malformed lib item =
     (if item_type item = Pdf then load lib (content (item_file item)) = None
      else if mime_type (item_file item) = ''image/jpeg'' \<or> mime_type (item_file item) = ''image/jpg'' then
        embedJpg lib (content (item_file item)) = None
      else if mime_type (item_file item) = ''image/png'' then
        embedPng lib (content (item_file item)) = None
      else False)"

text \<open>An item classified as an image whose subtype is neither JPEG nor PNG.\<close>

definition unsupported_subtype :: "FileWithMetadata \<Rightarrow> bool" where
  "unsupported_subtype item =
     (item_type item = Image \<and>
      mime_type (item_file item) \<noteq> ''image/jpeg'' \<and>
      mime_type (item_file item) \<noteq> ''image/jpg'' \<and>
      mime_type (item_file item) \<noteq> ''image/png'')"

text \<open>The page-count invariant of the specification, per source file: the pages of a
  PDF, one page for a valid JPEG or PNG, none for anything else.\<close>

definition source_pages :: "pdflib \<Rightarrow> File \<Rightarrow> nat" where
  "source_pages lib f =
     (if mime_type f = ''application/pdf'' then
        (case load lib (content f) of None \<Rightarrow> 0 | Some pdfDoc \<Rightarrow> length pdfDoc)
      else if mime_type f = ''image/jpeg'' \<or> mime_type f = ''image/jpg'' then
        (case embedJpg lib (content f) of None \<Rightarrow> 0 | Some img \<Rightarrow> 1)
      else if mime_type f = ''image/png'' then
        (case embedPng lib (content f) of None \<Rightarrow> 0 | Some img \<Rightarrow> 1)
      else 0)"

text \<open>The items of the list in the order in which they were inserted, whatever their
  timestamps: the reference against which stability is stated.\<close>

fun record_step :: "FileWithMetadata list \<Rightarrow> event \<Rightarrow> FileWithMetadata list" where
  "record_step hist (AddFiles rnd newFiles) = hist @ validFiles rnd newFiles"
| "record_step hist (RemoveFile i) = filter (\<lambda>f. item_id f \<noteq> i) hist"
| "record_step hist ClearAll = []"
| "record_step hist MergeFiles = hist"

definition insertion_order :: "event list \<Rightarrow> FileWithMetadata list" where
  "insertion_order evs = foldl record_step [] evs"

text \<open>The pages of the PDF that a merge publishes when it succeeds: those of \<open>mergedPdf\<close> as
  \<open>save()\<close> writes them.\<close>

definition mergedDocument :: "pdflib \<Rightarrow> FileWithMetadata list \<Rightarrow> PDFPage list option" where
  "mergedDocument lib items =
     (case mergeLoop lib items [] of
        None \<Rightarrow> None
      | Some mergedPdf \<Rightarrow>
          (case save lib mergedPdf of
             None \<Rightarrow> None
           | Some pdfBytes \<Rightarrow> Some (addDefaultPage lib mergedPdf)))"

text \<open>The image that the loop decodes from an item, if the item is a JPEG or a PNG.\<close>

definition decoded_image :: "pdflib \<Rightarrow> FileWithMetadata \<Rightarrow> PDFImage option" where
  "decoded_image lib item =
     (if item_type item = Pdf then None
      else if mime_type (item_file item) = ''image/jpeg'' \<or> mime_type (item_file item) = ''image/jpg'' then
        embedJpg lib (content (item_file item))
      else if mime_type (item_file item) = ''image/png'' then
        embedPng lib (content (item_file item))
      else None)"

text \<open>The merged output on display, if any, is the merge of the list on display.\<close>

definition merged_is_current :: "pdflib \<Rightarrow> app_state \<Rightarrow> bool" where
  "merged_is_current lib s =
     (case mergedPdfUrl s of
        None \<Rightarrow> True
      | Some url \<Rightarrow> files s = [] \<or> mergeBytes lib (files s) = Some (case url of ObjectURL b \<Rightarrow> b))"

subsection \<open>Sample inputs\<close>

text \<open>A small stand-in for pdf-lib, for concrete runs: a PDF is the byte \<open>37\<close> followed by
  one byte per page, an image is two bytes, its width and its height; the page is A4, as
  in pdf-lib; the serialisation writes one byte per page: \<open>1\<close> for a copied page, \<open>2\<close> for
  an image page, \<open>0\<close> for a blank page.\<close>

definition sample_embed :: "bytes \<Rightarrow> PDFImage option" where
  "sample_embed bs =
     (case bs of
        [w, h] \<Rightarrow> Some (PDFImage (of_nat (unat w)) (of_nat (unat h)))
      | _ \<Rightarrow> None)"

definition sample_lib :: pdflib where
  "sample_lib =
     \<lparr>load = (\<lambda>bs. case bs of
                     [] \<Rightarrow> None
                   | b # pages \<Rightarrow> if b = 37 then Some (map (\<lambda>p. [p]) pages) else None),
      embedJpg = sample_embed,
      embedPng = sample_embed,
      defaultPageSize = (59528 / 100, 84189 / 100),
      serialize = (\<lambda>doc. Some (map (\<lambda>p. case p of CopiedPage bs \<Rightarrow> 1
                                            | ImagePage sz img opts \<Rightarrow> 2
                                            | BlankPage sz \<Rightarrow> 0) doc))\<rparr>"

definition sample_png :: File where
  "sample_png = \<lparr>name = ''a.png'', mime_type = ''image/png'', lastModified = 100, content = [200, 100]\<rparr>"

definition sample_pdf :: File where
  "sample_pdf = \<lparr>name = ''b.pdf'', mime_type = ''application/pdf'', lastModified = 50, content = [37, 1, 2]\<rparr>"

definition sample_gif :: File where
  "sample_gif = \<lparr>name = ''c.gif'', mime_type = ''image/gif'', lastModified = 75, content = [71, 73, 70]\<rparr>"

definition sample_txt :: File where
  "sample_txt = \<lparr>name = ''d.txt'', mime_type = ''text/plain'', lastModified = 60, content = [104, 105]\<rparr>"

definition sample_corrupt :: File where
  "sample_corrupt = \<lparr>name = ''x.pdf'', mime_type = ''application/pdf'', lastModified = 90, content = [0]\<rparr>"

definition sample_jpg :: File where
  "sample_jpg = \<lparr>name = ''e.jpg'', mime_type = ''image/jpeg'', lastModified = 100, content = [50, 100]\<rparr>"

definition sample_ids :: "nat \<Rightarrow> string" where
  "sample_ids i = replicate (Suc i) (CHR ''a'')"

text \<open>The list after \<open>sample_png\<close>, \<open>sample_pdf\<close> and \<open>sample_gif\<close> were added in this
  order, and the list after \<open>sample_pdf\<close> and \<open>sample_corrupt\<close> were.\<close>

definition sample_items :: "FileWithMetadata list" where
  "sample_items =
     [\<lparr>item_id = ''aa'', item_file = sample_pdf, item_type = Pdf, timestamp = 50,
        preview = None\<rparr>,
      \<lparr>item_id = ''aaa'', item_file = sample_gif, item_type = Image, timestamp = 75,
        preview = Some (ObjectURL [71, 73, 70])\<rparr>,
      \<lparr>item_id = ''a'', item_file = sample_png, item_type = Image, timestamp = 100,
        preview = Some (ObjectURL [200, 100])\<rparr>]"

definition sample_corrupt_item :: FileWithMetadata where
  "sample_corrupt_item =
     \<lparr>item_id = ''aa'', item_file = sample_corrupt, item_type = Pdf, timestamp = 90,
      preview = None\<rparr>"

definition sample_page :: PDFPage where
  "sample_page =
     ImagePage (59528 / 100, 84189 / 100) (PDFImage 200 100)
       \<lparr>opt_x = 20, opt_y = 2257 / 8, opt_width = 13882 / 25, opt_height = 6941 / 25\<rparr>"

definition sample_tall_page :: PDFPage where
  "sample_tall_page =
     ImagePage (59528 / 100, 84189 / 100) (PDFImage 50 100)
       \<lparr>opt_x = 38867 / 400, opt_y = 20, opt_width = 80189 / 200, opt_height = 80189 / 100\<rparr>"

text \<open>Two batches; \<open>sample_jpg\<close>, added last, has the timestamp of \<open>sample_png\<close>.\<close>

definition sample_session :: "event list" where
  "sample_session =
     [AddFiles sample_ids [sample_png, sample_pdf, sample_gif], AddFiles sample_ids [sample_jpg]]"

section \<open>Properties\<close>

subsection \<open>The loop of \<open>mergeFiles\<close>\<close>

lemma copyPages_all: "copyPages pdfDoc (getPageIndices pdfDoc) = map CopiedPage pdfDoc"
proof -
  have "map (\<lambda>i. CopiedPage (pdfDoc ! i)) [0..<length pdfDoc]
        = map CopiedPage (map ((!) pdfDoc) [0..<length pdfDoc])"
    by simp
  then show ?thesis
    by (simp only: copyPages_def getPageIndices_def map_nth)
qed

lemma mergeLoop_Cons_Some:
  "mergeLoop lib (item # rest) acc = Some doc \<Longrightarrow>
   mergeLoop lib rest (acc @ page_group lib item) = Some doc"
  by (auto simp: page_group_def copyPages_all split: if_splits option.splits)

lemma mergeLoop_Some:
  "mergeLoop lib items acc = Some doc \<Longrightarrow> doc = acc @ concat (map (page_group lib) items)"
proof (induction items arbitrary: acc)
  case Nil
  then show ?case by simp
next
  case (Cons item rest)
  from Cons.prems have "mergeLoop lib rest (acc @ page_group lib item) = Some doc"
    by (rule mergeLoop_Cons_Some)
  then have "doc = (acc @ page_group lib item) @ concat (map (page_group lib) rest)"
    by (rule Cons.IH)
  then show ?case by simp
qed

lemma mergeLoop_malformed:
  "item \<in> set items \<Longrightarrow> malformed lib item \<Longrightarrow> mergeLoop lib items acc = None"
proof (induction items arbitrary: acc)
  case Nil
  then show ?case by simp
next
  case (Cons a rest)
  then show ?case
    by (auto simp: malformed_def split: if_splits option.splits)
qed

lemma mergeLoop_append:
  "mergeLoop lib (xs @ ys) acc =
     (case mergeLoop lib xs acc of None \<Rightarrow> None | Some doc \<Rightarrow> mergeLoop lib ys doc)"
  by (induction xs arbitrary: acc) (auto split: option.splits)

lemma mergeLoop_unsupported_subtype:
  "unsupported_subtype item \<Longrightarrow> mergeLoop lib (item # rest) acc = mergeLoop lib rest acc"
  by (simp add: unsupported_subtype_def)

lemma mergeLoop_skip:
  "unsupported_subtype item \<Longrightarrow>
   mergeLoop lib (xs @ item # ys) acc = mergeLoop lib (xs @ ys) acc"
  by (simp only: mergeLoop_append mergeLoop_unsupported_subtype)

subsection \<open>The file list\<close>

lemma mergeFiles_files: "files (mergeFiles lib s) = files s"
  by (simp add: mergeFiles_def split: option.splits)

lemma sort_key_absorb:
  "sort_key f (sort_key f xs @ ys) = sort_key f (xs @ ys)"
proof (rule properties_for_sort_key)
  show "mset (sort_key f (xs @ ys)) = mset (sort_key f xs @ ys)" by simp
next
  fix k
  have "filter (\<lambda>x. f x = f k) (sort_key f (xs @ ys)) = filter (\<lambda>x. f x = f k) (sort_key f xs @ ys)"
    by (simp add: sort_key_stable)
  then show "filter (\<lambda>x. f k = f x) (sort_key f (xs @ ys)) = filter (\<lambda>x. f k = f x) (sort_key f xs @ ys)"
    by (simp add: eq_commute[of "f k"])
next
  show "sorted (map f (sort_key f (xs @ ys)))" by simp
qed

lemma files_run: "files (run lib evs) = sort_key timestamp (insertion_order evs)"
proof (induction evs rule: rev_induct)
  case Nil
  then show ?case by (simp add: run_def insertion_order_def initial_state_def)
next
  case (snoc e evs)
  then have IH: "files (foldl (step lib) initial_state evs) = sort_key timestamp (foldl record_step [] evs)"
    by (simp add: run_def insertion_order_def)
  show ?case
    by (cases e) (simp_all add: run_def insertion_order_def IH addFiles_def removeFile_def clearAll_def
        mergeFiles_files sort_key_absorb filter_sort Let_def)
qed

lemma sorted_files_run: "sorted (map timestamp (files (run lib evs)))"
  by (simp add: files_run)

lemma sorted_files_addFiles: "sorted (map timestamp (files (addFiles rnd newFiles s)))"
  by (simp add: addFiles_def Let_def)

lemma sorted_map_filter_key: "sorted (map f xs) \<Longrightarrow> sorted (map f (filter P xs))"
  by (induction xs) auto

lemma sorted_files_removeFile:
  "sorted (map timestamp (files s)) \<Longrightarrow> sorted (map timestamp (files (removeFile i s)))"
  by (simp add: removeFile_def sorted_map_filter_key)

subsection \<open>The merged output and the list it came from\<close>

lemma merged_is_current_initial: "merged_is_current lib initial_state"
  by (simp add: merged_is_current_def initial_state_def)

lemma merged_is_current_step:
  "merged_is_current lib s \<Longrightarrow> merged_is_current lib (step lib s e)"
proof (cases e)
  case (AddFiles rnd newFiles)
  then show ?thesis by (simp add: merged_is_current_def addFiles_def Let_def)
next
  case (RemoveFile i)
  then show ?thesis by (simp add: merged_is_current_def removeFile_def)
next
  case ClearAll
  then show ?thesis by (simp add: merged_is_current_def clearAll_def split: option.splits)
next
  case MergeFiles
  assume "merged_is_current lib s"
  with MergeFiles show ?thesis
    by (auto simp: merged_is_current_def mergeFiles_def split: option.splits)
qed

lemma merged_is_current_run: "merged_is_current lib (run lib evs)"
proof (induction evs rule: rev_induct)
  case Nil
  then show ?case by (simp add: run_def merged_is_current_initial)
next
  case (snoc e evs)
  then show ?case by (simp add: run_def merged_is_current_step)
qed

lemma no_output_when_merge_fails:
  assumes "files (run lib evs) \<noteq> []" and "mergeBytes lib (files (run lib evs)) = None"
  shows "mergedPdfUrl (run lib evs) = None"
  using merged_is_current_run[of lib evs] assms
  by (simp add: merged_is_current_def split: option.splits)

subsection \<open>Runs on the sample inputs\<close>

lemmas model_defs =
  run_def addFiles_def removeFile_def clearAll_def mergeFiles_def mergeBytes_def
  save_def addDefaultPage_def
  validFiles_def toMetadata_def isPdf_def isImage_def initial_state_def
  imagePage_def scaleToFit_def copyPages_def getPageIndices_def Let_def

lemmas sample_defs =
  sample_lib_def sample_embed_def sample_png_def sample_pdf_def sample_gif_def
  sample_txt_def sample_corrupt_def sample_ids_def sample_items_def
  sample_corrupt_item_def sample_page_def sample_jpg_def sample_tall_page_def

lemma sample_session_files:
  "map (name \<circ> item_file) (files (run sample_lib sample_session))
     = [''b.pdf'', ''c.gif'', ''a.png'', ''e.jpg'']"
  by (simp add: sample_session_def model_defs sample_defs)

lemma sample_session_inserted:
  "map (name \<circ> item_file) (insertion_order sample_session)
     = [''a.png'', ''b.pdf'', ''c.gif'', ''e.jpg'']"
  by (simp add: sample_session_def insertion_order_def model_defs sample_defs)

lemma sample_session_merge:
  "mergeLoop sample_lib (files (run sample_lib sample_session)) []
     = Some [CopiedPage [1], CopiedPage [2], sample_page, sample_tall_page]"
  by (simp add: sample_session_def model_defs sample_defs)

lemma sample_merge:
  "mergeLoop sample_lib sample_items [] = Some [CopiedPage [1], CopiedPage [2], sample_page]"
  by (simp add: model_defs sample_defs)

lemma sample_corrupt_files:
  "files (run sample_lib [AddFiles sample_ids [sample_pdf, sample_corrupt]]) =
     [(sample_items ! 0)\<lparr>item_id := ''a''\<rparr>, sample_corrupt_item]"
  by (simp add: model_defs sample_defs)

lemma sample_corrupt_malformed: "malformed sample_lib sample_corrupt_item"
  by (simp add: malformed_def sample_defs)

subsection \<open>Page counts\<close>

lemma length_page_group_toMetadata:
  "length (page_group lib (toMetadata rnd p)) = source_pages lib (snd p)"
  by (simp add: page_group_def toMetadata_def source_pages_def split: option.splits)

lemma source_pages_unsupported:
  "\<not> isPdf f \<Longrightarrow> \<not> isImage f \<Longrightarrow> source_pages lib f = 0"
  by (auto simp: source_pages_def isPdf_def isImage_def)

lemma sum_source_pages_filter:
  "(\<Sum>f\<leftarrow>filter (\<lambda>f. isPdf f \<or> isImage f) fs. source_pages lib f) = (\<Sum>f\<leftarrow>fs. source_pages lib f)"
  by (induction fs) (simp_all add: source_pages_unsupported)

lemma sum_list_sort_key:
  "(\<Sum>x\<leftarrow>sort_key f xs. (g x :: nat)) = (\<Sum>x\<leftarrow>xs. g x)"
proof -
  have "mset (map g (sort_key f xs)) = mset (map g xs)"
    by simp
  then show ?thesis
    by (metis sum_mset_sum_list)
qed

lemma sum_validFiles:
  "(\<Sum>item\<leftarrow>validFiles rnd newFiles. length (page_group lib item)) = (\<Sum>f\<leftarrow>newFiles. source_pages lib f)"
proof -
  let ?ok = "filter (\<lambda>f. isPdf f \<or> isImage f) newFiles"
  have "map (\<lambda>item. length (page_group lib item)) (validFiles rnd newFiles)
        = map (\<lambda>p. source_pages lib (snd p)) (enumerate 0 ?ok)"
    by (simp add: validFiles_def length_page_group_toMetadata comp_def)
  also have "\<dots> = map (source_pages lib) (map snd (enumerate 0 ?ok))"
    by (simp only: map_map comp_def)
  also have "\<dots> = map (source_pages lib) ?ok"
    by (simp only: map_snd_enumerate)
  finally show ?thesis
    by (simp add: sum_source_pages_filter)
qed

lemma length_mergeLoop:
  "mergeLoop lib items [] = Some doc \<Longrightarrow> length doc = (\<Sum>item\<leftarrow>items. length (page_group lib item))"
  using mergeLoop_Some [of lib items "[]" doc] by (simp add: length_concat comp_def)

lemma length_mergeLoop_addFiles:
  assumes "mergeLoop lib (files (addFiles rnd newFiles initial_state)) [] = Some doc"
  shows "length doc = (\<Sum>f\<leftarrow>newFiles. source_pages lib f)"
proof -
  have "files (addFiles rnd newFiles initial_state) = sort_key timestamp (validFiles rnd newFiles)"
    by (simp add: addFiles_def initial_state_def Let_def)
  with assms have "length doc
      = (\<Sum>item\<leftarrow>sort_key timestamp (validFiles rnd newFiles). length (page_group lib item))"
    by (simp add: length_mergeLoop)
  then show ?thesis
    by (simp only: sum_list_sort_key sum_validFiles)
qed

subsection \<open>Image pages\<close>

lemma imagePage_centered:
  assumes "imagePage lib img = ImagePage (PW, PH) img' opts"
  shows "opt_x opts = PW - (opt_x opts + opt_width opts)"
    and "opt_y opts = PH - (opt_y opts + opt_height opts)"
proof -
  from assms have x: "opt_x opts = (PW - opt_width opts) / 2"
    and y: "opt_y opts = (PH - opt_height opts) / 2"
    by (auto simp: imagePage_def Let_def)
  from x show "opt_x opts = PW - (opt_x opts + opt_width opts)"
    by (simp add: field_simps)
  from y show "opt_y opts = PH - (opt_y opts + opt_height opts)"
    by (simp add: field_simps)
qed

lemma page_group_ImagePage:
  assumes a: "ImagePage sz img opts \<in> set (page_group lib item)"
  shows "\<exists>src. imagePage lib src = ImagePage sz img opts"
proof (cases "item_type item = Pdf")
  case True
  with a show ?thesis
    by (cases "load lib (content (item_file item))") (auto simp: page_group_def)
next
  case notpdf: False
  show ?thesis
  proof (cases "mime_type (item_file item) = ''image/jpeg'' \<or> mime_type (item_file item) = ''image/jpg''")
    case True
    with a notpdf have "ImagePage sz img opts \<in> set (case embedJpg lib (content (item_file item)) of
           None \<Rightarrow> [] | Some img \<Rightarrow> [imagePage lib img])"
      by (simp add: page_group_def)
    then show ?thesis
      by (cases "embedJpg lib (content (item_file item))") (simp_all, metis)
  next
    case notjpg: False
    show ?thesis
    proof (cases "mime_type (item_file item) = ''image/png''")
      case True
      with a notpdf notjpg have "ImagePage sz img opts \<in> set (case embedPng lib (content (item_file item)) of
           None \<Rightarrow> [] | Some img \<Rightarrow> [imagePage lib img])"
        by (simp add: page_group_def)
      then show ?thesis
        by (cases "embedPng lib (content (item_file item))") (simp_all, metis)
    next
      case False
      with a notpdf notjpg show ?thesis
        by (simp add: page_group_def)
    qed
  qed
qed

lemma mergeLoop_ImagePage:
  assumes "mergeLoop lib items [] = Some doc" and "ImagePage sz img opts \<in> set doc"
  shows "\<exists>src. imagePage lib src = ImagePage sz img opts"
proof -
  from mergeLoop_Some [OF assms(1)] have "doc = concat (map (page_group lib) items)"
    by simp
  with assms(2) obtain item where "ImagePage sz img opts \<in> set (page_group lib item)"
    by auto
  then show ?thesis
    by (rule page_group_ImagePage)
qed

lemma mergeLoop_decoded:
  "decoded_image lib item = Some img \<Longrightarrow> mergeLoop lib [item] acc = Some (acc @ [imagePage lib img])"
  by (auto simp: decoded_image_def split: if_splits)

subsection \<open>What the handlers do to the merged output\<close>

lemma addFiles_clears_output: "mergedPdfUrl (addFiles rnd newFiles s) = None"
  by (simp add: addFiles_def Let_def)

lemma removeFile_clears_output: "mergedPdfUrl (removeFile i s) = None"
  by (simp add: removeFile_def)

lemma clearAll_keeps_output: "mergedPdfUrl (clearAll s) = mergedPdfUrl s"
  by (simp add: clearAll_def)

section \<open>The claims\<close>

text \<open>
  C1. Whenever the file list holds a supported item whose bytes are malformed (a PDF that
  does not parse, a JPEG or PNG that does not decode), the merge produces no bytes, the
  error message is set, and no merged output is on display afterwards, after any sequence
  of user actions.
\<close>

theorem merge_all_or_nothing:
  assumes "item \<in> set (files (run lib evs))" and "malformed lib item"
  shows "mergeBytes lib (files (run lib evs)) = None
       \<and> error (mergeFiles lib (run lib evs)) = Some merge_error_message
       \<and> mergedPdfUrl (mergeFiles lib (run lib evs)) = None"
proof -
  from assms have loop: "mergeLoop lib (files (run lib evs)) [] = None"
    by (rule mergeLoop_malformed)
  then have bytes: "mergeBytes lib (files (run lib evs)) = None"
    by (simp add: mergeBytes_def)
  from assms(1) have nonempty: "files (run lib evs) \<noteq> []"
    by auto
  from nonempty bytes have "mergedPdfUrl (run lib evs) = None"
    by (rule no_output_when_merge_fails)
  with bytes nonempty show ?thesis
    by (simp add: mergeFiles_def)
qed

theorem merge_all_or_nothing_witness:
  "sample_corrupt_item \<in> set (files (run sample_lib [AddFiles sample_ids [sample_pdf, sample_corrupt]]))
   \<and> malformed sample_lib sample_corrupt_item
   \<and> mergeBytes sample_lib (files (run sample_lib [AddFiles sample_ids [sample_pdf, sample_corrupt]])) = None
   \<and> error (mergeFiles sample_lib (run sample_lib [AddFiles sample_ids [sample_pdf, sample_corrupt]]))
       = Some merge_error_message
   \<and> mergedPdfUrl (mergeFiles sample_lib (run sample_lib [AddFiles sample_ids [sample_pdf, sample_corrupt]]))
       = None"
proof -
  have h: "sample_corrupt_item \<in> set (files (run sample_lib [AddFiles sample_ids [sample_pdf, sample_corrupt]]))"
    by (simp add: sample_corrupt_files)
  from merge_all_or_nothing [OF h sample_corrupt_malformed] h sample_corrupt_malformed
  show ?thesis by simp
qed

text \<open>
  C2. After any sequence of user actions, the file list is in non-decreasing timestamp
  order, items with equal timestamps stand in the order of their insertion, and a merge
  that succeeds outputs the page groups of the items in the order of the list, the pages of
  each source PDF in their internal order.
\<close>

theorem merge_chronological_order:
  assumes "mergeLoop lib (files (run lib evs)) [] = Some doc"
  shows "sorted (map timestamp (files (run lib evs)))
       \<and> (\<forall>t. filter (\<lambda>f. timestamp f = t) (files (run lib evs))
              = filter (\<lambda>f. timestamp f = t) (insertion_order evs))
       \<and> doc = concat (map (page_group lib) (files (run lib evs)))"
proof -
  from mergeLoop_Some [OF assms] have "doc = concat (map (page_group lib) (files (run lib evs)))"
    by simp
  then show ?thesis
    by (simp add: files_run sort_key_stable)
qed

theorem merge_chronological_order_witness:
  "mergeLoop sample_lib (files (run sample_lib sample_session)) []
     = Some [CopiedPage [1], CopiedPage [2], sample_page, sample_tall_page]
   \<and> map (name \<circ> item_file) (insertion_order sample_session)
     = [''a.png'', ''b.pdf'', ''c.gif'', ''e.jpg'']
   \<and> map (name \<circ> item_file) (files (run sample_lib sample_session))
     = [''b.pdf'', ''c.gif'', ''a.png'', ''e.jpg'']
   \<and> sorted (map timestamp (files (run sample_lib sample_session)))
   \<and> filter (\<lambda>f. timestamp f = 100) (files (run sample_lib sample_session))
     = filter (\<lambda>f. timestamp f = 100) (insertion_order sample_session)
   \<and> [CopiedPage [1], CopiedPage [2], sample_page, sample_tall_page]
     = concat (map (page_group sample_lib) (files (run sample_lib sample_session)))"
  using merge_chronological_order [OF sample_session_merge]
    sample_session_merge sample_session_files sample_session_inserted
  by blast

text \<open>
  C3 (as amended). When the files of an input list are added, the merge succeeds and at
  least one file contributes a page, the published PDF is the serialisation of a document
  whose number of pages is the sum over the input files of: the page count of the file if
  it is a PDF, one if it is a JPEG or PNG image, zero for any other file (other image
  subtypes and unsupported files).
\<close>

theorem merge_page_count:
  assumes "mergedPdfUrl (mergeFiles lib (addFiles rnd newFiles initial_state)) = Some (ObjectURL pdfBytes)"
    and "0 < (\<Sum>f\<leftarrow>newFiles. source_pages lib f)"
  shows "\<exists>pages. mergedDocument lib (files (addFiles rnd newFiles initial_state)) = Some pages
                \<and> serialize lib pages = Some pdfBytes
                \<and> length pages = (\<Sum>f\<leftarrow>newFiles. source_pages lib f)"
proof -
  let ?s = "addFiles rnd newFiles initial_state"
  have cleared: "mergedPdfUrl ?s = None"
    by (rule addFiles_clears_output)
  with assms(1) have bytes: "mergeBytes lib (files ?s) = Some pdfBytes"
    by (auto simp: mergeFiles_def split: if_splits option.splits)
  then obtain doc where loop: "mergeLoop lib (files ?s) [] = Some doc"
    and saved: "save lib doc = Some pdfBytes"
    by (auto simp: mergeBytes_def split: option.splits)
  from loop have len: "length doc = (\<Sum>f\<leftarrow>newFiles. source_pages lib f)"
    by (rule length_mergeLoop_addFiles)
  from assms(2) len have "length doc \<noteq> 0"
    by linarith
  then have "addDefaultPage lib doc = doc"
    by (simp only: addDefaultPage_def if_False)
  with loop saved len have "mergedDocument lib (files ?s) = Some doc
      \<and> serialize lib doc = Some pdfBytes
      \<and> length doc = (\<Sum>f\<leftarrow>newFiles. source_pages lib f)"
    by (simp add: mergedDocument_def save_def)
  then show ?thesis
    by blast
qed

theorem merge_page_count_witness:
  "mergedPdfUrl (mergeFiles sample_lib
       (addFiles sample_ids [sample_png, sample_pdf, sample_gif, sample_txt] initial_state))
     = Some (ObjectURL [1, 1, 2])
   \<and> (0 :: nat) < (\<Sum>f\<leftarrow>[sample_png, sample_pdf, sample_gif, sample_txt]. source_pages sample_lib f)
   \<and> map (source_pages sample_lib) [sample_png, sample_pdf, sample_gif, sample_txt] = [1, 2, 0, 0]
   \<and> (\<exists>pages. mergedDocument sample_lib
          (files (addFiles sample_ids [sample_png, sample_pdf, sample_gif, sample_txt] initial_state))
            = Some pages
        \<and> serialize sample_lib pages = Some [1, 1, 2]
        \<and> length pages = 3)"
proof -
  have h: "mergedPdfUrl (mergeFiles sample_lib
       (addFiles sample_ids [sample_png, sample_pdf, sample_gif, sample_txt] initial_state))
     = Some (ObjectURL [1, 1, 2])"
    by (simp add: model_defs sample_defs)
  have c: "map (source_pages sample_lib) [sample_png, sample_pdf, sample_gif, sample_txt] = [1, 2, 0, 0]"
    by (simp add: source_pages_def sample_defs)
  then have t: "(\<Sum>f\<leftarrow>[sample_png, sample_pdf, sample_gif, sample_txt]. source_pages sample_lib f) = 3"
    by simp
  then have p: "(0 :: nat) < (\<Sum>f\<leftarrow>[sample_png, sample_pdf, sample_gif, sample_txt]. source_pages sample_lib f)"
    by simp
  from merge_page_count [OF h p]
  have "\<exists>pages. mergedDocument sample_lib
          (files (addFiles sample_ids [sample_png, sample_pdf, sample_gif, sample_txt] initial_state))
            = Some pages
        \<and> serialize sample_lib pages = Some [1, 1, 2]
        \<and> length pages = 3"
    by (simp only: t)
  with h p c show ?thesis
    by blast
qed

text \<open>
  C3 as stated fails: a GIF alone is added and the list is merged; the merge succeeds and
  publishes a PDF of one page, the blank page that \<open>save()\<close> gives an empty document,
  whereas the claimed sum is zero.
\<close>

theorem merge_page_count_counterexample:
  "mergedPdfUrl (mergeFiles sample_lib (addFiles sample_ids [sample_gif] initial_state))
     = Some (ObjectURL [0])
   \<and> mergedDocument sample_lib (files (addFiles sample_ids [sample_gif] initial_state))
     = Some [BlankPage (59528 / 100, 84189 / 100)]
   \<and> serialize sample_lib [BlankPage (59528 / 100, 84189 / 100)] = Some [0]
   \<and> length [BlankPage (59528 / 100, 84189 / 100)] = Suc 0
   \<and> (\<Sum>f\<leftarrow>[sample_gif]. source_pages sample_lib f) = 0"
  by (simp add: mergedDocument_def source_pages_def model_defs sample_defs)

text \<open>
  C4 (as amended). \<open>mergeFiles\<close> on an empty file list returns at once and leaves the state
  as it was: no error is set and no output is produced.
\<close>

theorem merge_empty_list_noop:
  assumes "files s = []"
  shows "mergeFiles lib s = s"
  using assms by (simp add: mergeFiles_def)

theorem merge_empty_list_noop_witness:
  "files initial_state = [] \<and> mergeFiles sample_lib initial_state = initial_state"
proof -
  have h: "files initial_state = []"
    by (simp add: initial_state_def)
  from merge_empty_list_noop [OF h] h show ?thesis
    by simp
qed

text \<open>
  C4 as stated fails: merging the empty list of the initial state reports no failure.
\<close>

theorem merge_empty_list_counterexample:
  "files initial_state = []
   \<and> error (mergeFiles sample_lib initial_state) = None
   \<and> mergedPdfUrl (mergeFiles sample_lib initial_state) = None"
  by (simp add: mergeFiles_def initial_state_def)

text \<open>
  C5. An item classified as an image whose subtype is neither JPEG nor PNG is skipped: on
  its own it adds no page and does not fail, and a list that contains it merges exactly as
  the list without it does.
\<close>

theorem unsupported_image_skipped:
  assumes "unsupported_subtype item"
  shows "mergeLoop lib [item] acc = Some acc
       \<and> mergeLoop lib (xs @ item # ys) acc = mergeLoop lib (xs @ ys) acc
       \<and> mergeBytes lib (xs @ item # ys) = mergeBytes lib (xs @ ys)"
proof -
  from assms have "mergeLoop lib (item # []) acc = mergeLoop lib [] acc"
    by (rule mergeLoop_unsupported_subtype)
  then have one: "mergeLoop lib [item] acc = Some acc"
    by simp
  from assms have "mergeLoop lib (xs @ item # ys) [] = mergeLoop lib (xs @ ys) []"
    by (rule mergeLoop_skip)
  then have bytes: "mergeBytes lib (xs @ item # ys) = mergeBytes lib (xs @ ys)"
    by (simp only: mergeBytes_def)
  from assms have "mergeLoop lib (xs @ item # ys) acc = mergeLoop lib (xs @ ys) acc"
    by (rule mergeLoop_skip)
  with one bytes show ?thesis
    by simp
qed

theorem unsupported_image_skipped_witness:
  "unsupported_subtype (sample_items ! 1)
   \<and> mergeLoop sample_lib [sample_items ! 1] [] = Some []
   \<and> mergeLoop sample_lib ([sample_items ! 0] @ sample_items ! 1 # [sample_items ! 2]) []
     = Some [CopiedPage [1], CopiedPage [2], sample_page]
   \<and> mergeBytes sample_lib ([sample_items ! 0] @ sample_items ! 1 # [sample_items ! 2])
     = Some [1, 1, 2]"
proof -
  have h: "unsupported_subtype (sample_items ! 1)"
    by (simp add: unsupported_subtype_def sample_defs)
  have m: "mergeLoop sample_lib ([sample_items ! 0] @ [sample_items ! 2]) []
     = Some [CopiedPage [1], CopiedPage [2], sample_page]"
    by (simp add: model_defs sample_defs)
  have b: "mergeBytes sample_lib ([sample_items ! 0] @ [sample_items ! 2]) = Some [1, 1, 2]"
    by (simp add: model_defs sample_defs)
  from unsupported_image_skipped [OF h, of sample_lib "[]" "[sample_items ! 0]" "[sample_items ! 2]"]
    h m b
  show ?thesis by simp
qed

text \<open>
  C6. A JPEG or PNG item that decodes to an image of native width \<open>W\<close> and height \<open>H\<close>
  becomes one page of the default size \<open>PW\<close> by \<open>PH\<close> on which the image is drawn with
  width \<open>s * W\<close> and height \<open>s * H\<close>, where \<open>s = min ((PW - 40) / W) ((PH - 40) / H)\<close>;
  the ratio of the drawn width to the drawn height is \<open>W / H\<close>.
\<close>

theorem image_scaled_to_fit:
  assumes "decoded_image lib item = Some (PDFImage W H)"
    and "defaultPageSize lib = (PW, PH)"
    and "0 < W" and "0 < H" and "40 < PW" and "40 < PH"
  shows "mergeLoop lib [item] [] =
           Some [ImagePage (PW, PH) (PDFImage W H)
                   \<lparr>opt_x = (PW - min ((PW - 40) / W) ((PH - 40) / H) * W) / 2,
                    opt_y = (PH - min ((PW - 40) / W) ((PH - 40) / H) * H) / 2,
                    opt_width = min ((PW - 40) / W) ((PH - 40) / H) * W,
                    opt_height = min ((PW - 40) / W) ((PH - 40) / H) * H\<rparr>]
       \<and> (min ((PW - 40) / W) ((PH - 40) / H) * W) / (min ((PW - 40) / W) ((PH - 40) / H) * H)
           = W / H"
proof -
  let ?s = "min ((PW - 40) / W) ((PH - 40) / H)"
  from assms(1) have "mergeLoop lib [item] [] = Some ([] @ [imagePage lib (PDFImage W H)])"
    by (rule mergeLoop_decoded)
  with assms(2) have page: "mergeLoop lib [item] [] =
           Some [ImagePage (PW, PH) (PDFImage W H)
                   \<lparr>opt_x = (PW - ?s * W) / 2, opt_y = (PH - ?s * H) / 2,
                    opt_width = ?s * W, opt_height = ?s * H\<rparr>]"
    by (simp add: imagePage_def scaleToFit_def Let_def)
  from assms(3-6) have "?s \<noteq> 0"
    by (simp add: min_def)
  then have "(?s * W) / (?s * H) = W / H"
    by (rule mult_divide_mult_cancel_left)
  with page show ?thesis
    by simp
qed

theorem image_scaled_to_fit_witness:
  "decoded_image sample_lib (sample_items ! 2) = Some (PDFImage 200 100)
   \<and> defaultPageSize sample_lib = (59528 / 100, 84189 / 100)
   \<and> mergeLoop sample_lib [sample_items ! 2] [] = Some [sample_page]
   \<and> opt_width (case sample_page of ImagePage sz img opts \<Rightarrow> opts)
       / opt_height (case sample_page of ImagePage sz img opts \<Rightarrow> opts) = 200 / 100"
proof -
  have d: "decoded_image sample_lib (sample_items ! 2) = Some (PDFImage 200 100)"
    by (simp add: decoded_image_def sample_defs)
  have p: "defaultPageSize sample_lib = (59528 / 100, 84189 / 100)"
    by (simp add: sample_lib_def)
  from image_scaled_to_fit [OF d p] d p show ?thesis
    by (simp add: sample_page_def)
qed

text \<open>
  C7. On every image page that the merge loop produces, the image is centred: the left
  margin equals the right margin and the bottom margin equals the top margin, so each
  pair differs by at most one unit.
\<close>

theorem image_centered:
  assumes "mergeLoop lib items [] = Some doc"
    and "ImagePage (PW, PH) img opts \<in> set doc"
  shows "opt_x opts = PW - (opt_x opts + opt_width opts)
       \<and> opt_y opts = PH - (opt_y opts + opt_height opts)
       \<and> \<bar>opt_x opts - (PW - (opt_x opts + opt_width opts))\<bar> \<le> 1
       \<and> \<bar>opt_y opts - (PH - (opt_y opts + opt_height opts))\<bar> \<le> 1"
proof -
  from assms obtain src where src: "imagePage lib src = ImagePage (PW, PH) img opts"
    by (blast dest: mergeLoop_ImagePage)
  from imagePage_centered [OF src]
  have "opt_x opts - (PW - (opt_x opts + opt_width opts)) = 0"
    and "opt_y opts - (PH - (opt_y opts + opt_height opts)) = 0"
    by simp_all
  then show ?thesis
    by simp
qed

theorem image_centered_witness:
  "mergeLoop sample_lib sample_items [] = Some [CopiedPage [1], CopiedPage [2], sample_page]
   \<and> sample_page \<in> set [CopiedPage [1], CopiedPage [2], sample_page]
   \<and> (20 :: rat) = 59528 / 100 - (20 + 13882 / 25)
   \<and> (2257 / 8 :: rat) = 84189 / 100 - (2257 / 8 + 6941 / 25)"
proof -
  have m: "ImagePage (59528 / 100, 84189 / 100) (PDFImage 200 100)
             \<lparr>opt_x = 20, opt_y = 2257 / 8, opt_width = 13882 / 25, opt_height = 6941 / 25\<rparr>
           \<in> set [CopiedPage [1], CopiedPage [2], sample_page]"
    by (simp add: sample_page_def)
  from image_centered [OF sample_merge m] sample_merge show ?thesis
    by simp
qed

text \<open>
  C8 (as amended). Files of an unsupported kind are dropped by \<open>addFiles\<close>, which keeps the
  PDF and image files and sets the generic message that some files were skipped (neither a
  count nor a list). An image of an unsupported subtype is skipped by the merge without
  any report: the merge completes with the bytes of the other items and with the error
  cleared.
\<close>

theorem skipped_items_reporting:
  assumes "f \<in> set newFiles" and "\<not> isPdf f" and "\<not> isImage f"
    and "unsupported_subtype item" and "mergeBytes lib (xs @ ys) = Some b"
  shows "error (addFiles rnd newFiles s) = Some skipped_message
       \<and> map item_file (validFiles rnd newFiles) = filter (\<lambda>f. isPdf f \<or> isImage f) newFiles
       \<and> error (mergeFiles lib (s\<lparr>files := xs @ item # ys\<rparr>)) = None
       \<and> mergedPdfUrl (mergeFiles lib (s\<lparr>files := xs @ item # ys\<rparr>)) = Some (ObjectURL b)"
proof -
  from assms(1-3) have "length (filter (\<lambda>f. isPdf f \<or> isImage f) newFiles) < length newFiles"
    by (auto intro: length_filter_less)
  then have "length (validFiles rnd newFiles) < length newFiles"
    by (simp add: validFiles_def)
  then have added: "error (addFiles rnd newFiles s) = Some skipped_message"
    by (simp add: addFiles_def Let_def)
  have kept: "map item_file (validFiles rnd newFiles) = filter (\<lambda>f. isPdf f \<or> isImage f) newFiles"
    by (simp add: validFiles_def toMetadata_def comp_def)
  from assms(4) have "mergeLoop lib (xs @ item # ys) [] = mergeLoop lib (xs @ ys) []"
    by (rule mergeLoop_skip)
  then have "mergeBytes lib (xs @ item # ys) = mergeBytes lib (xs @ ys)"
    by (simp only: mergeBytes_def)
  with assms(5) have "mergeBytes lib (xs @ item # ys) = Some b"
    by simp
  then have "error (mergeFiles lib (s\<lparr>files := xs @ item # ys\<rparr>)) = None"
    and "mergedPdfUrl (mergeFiles lib (s\<lparr>files := xs @ item # ys\<rparr>)) = Some (ObjectURL b)"
    by (simp_all add: mergeFiles_def)
  with added kept show ?thesis
    by simp
qed

theorem skipped_items_reporting_witness:
  "sample_txt \<in> set [sample_png, sample_txt] \<and> \<not> isPdf sample_txt \<and> \<not> isImage sample_txt
   \<and> unsupported_subtype (sample_items ! 1)
   \<and> mergeBytes sample_lib ([sample_items ! 0] @ [sample_items ! 2]) = Some [1, 1, 2]
   \<and> error (addFiles sample_ids [sample_png, sample_txt] initial_state) = Some skipped_message
   \<and> map item_file (validFiles sample_ids [sample_png, sample_txt]) = [sample_png]
   \<and> error (mergeFiles sample_lib (initial_state\<lparr>files := sample_items\<rparr>)) = None
   \<and> mergedPdfUrl (mergeFiles sample_lib (initial_state\<lparr>files := sample_items\<rparr>))
       = Some (ObjectURL [1, 1, 2])"
proof -
  have h1: "sample_txt \<in> set [sample_png, sample_txt]"
    by simp
  have h2: "\<not> isPdf sample_txt" and h3: "\<not> isImage sample_txt"
    by (simp_all add: isPdf_def isImage_def sample_defs)
  have h4: "unsupported_subtype (sample_items ! 1)"
    by (simp add: unsupported_subtype_def sample_defs)
  have h5: "mergeBytes sample_lib ([sample_items ! 0] @ [sample_items ! 2]) = Some [1, 1, 2]"
    by (simp add: model_defs sample_defs)
  have l: "[sample_items ! 0] @ sample_items ! 1 # [sample_items ! 2] = sample_items"
    by (simp add: sample_items_def)
  have k: "filter (\<lambda>f. isPdf f \<or> isImage f) [sample_png, sample_txt] = [sample_png]"
    by (simp add: isPdf_def isImage_def sample_defs)
  from skipped_items_reporting [OF h1 h2 h3 h4 h5, of sample_ids initial_state]
    h1 h2 h3 h4 h5
  show ?thesis
    by (simp only: l k) simp
qed

text \<open>
  C8 as stated fails: a GIF is added and the list is merged; the merge succeeds (its
  output is the one blank page that \<open>save()\<close> gives an empty document), and the resulting
  state, shown in full, reports no skipped item.
\<close>

theorem skipped_image_not_reported:
  "run sample_lib [AddFiles sample_ids [sample_gif], MergeFiles] =
     \<lparr>files = [\<lparr>item_id = ''a'', item_file = sample_gif, item_type = Image, timestamp = 75,
                 preview = Some (ObjectURL [71, 73, 70])\<rparr>],
      isMerging = False,
      mergedPdfUrl = Some (ObjectURL [0]),
      error = None\<rparr>"
  by (simp add: model_defs sample_defs)

text \<open>
  C9. The file list is sorted by timestamp after every \<open>addFiles\<close>, stays sorted under
  \<open>removeFile\<close>, and is therefore sorted after any sequence of user actions.
\<close>

theorem file_list_sorted:
  "sorted (map timestamp (files (addFiles rnd newFiles s)))
   \<and> (sorted (map timestamp (files s)) \<longrightarrow> sorted (map timestamp (files (removeFile i s))))
   \<and> sorted (map timestamp (files (run lib evs)))"
  by (simp add: sorted_files_addFiles sorted_files_removeFile sorted_files_run)

theorem file_list_sorted_witness:
  "map timestamp (files (addFiles sample_ids [sample_corrupt] (initial_state\<lparr>files := sample_items\<rparr>)))
     = [50, 75, 90, 100]
   \<and> sorted (map timestamp (files (initial_state\<lparr>files := sample_items\<rparr>)))
   \<and> map timestamp (files (removeFile ''aaa'' (initial_state\<lparr>files := sample_items\<rparr>))) = [50, 100]
   \<and> sorted (map timestamp (files (removeFile ''aaa'' (initial_state\<lparr>files := sample_items\<rparr>))))
   \<and> sorted (map timestamp (files (run sample_lib [AddFiles sample_ids [sample_png, sample_pdf, sample_gif]])))"
proof -
  have a: "map timestamp (files (addFiles sample_ids [sample_corrupt] (initial_state\<lparr>files := sample_items\<rparr>)))
     = [50, 75, 90, 100]"
    by (simp add: model_defs sample_defs)
  have s: "sorted (map timestamp (files (initial_state\<lparr>files := sample_items\<rparr>)))"
    by (simp add: sample_defs)
  have r: "map timestamp (files (removeFile ''aaa'' (initial_state\<lparr>files := sample_items\<rparr>))) = [50, 100]"
    by (simp add: model_defs sample_defs)
  from file_list_sorted [of sample_ids "[sample_corrupt]" "initial_state\<lparr>files := sample_items\<rparr>"
      "''aaa''" sample_lib "[AddFiles sample_ids [sample_png, sample_pdf, sample_gif]]"] s
  have "sorted (map timestamp (files (removeFile ''aaa'' (initial_state\<lparr>files := sample_items\<rparr>))))"
    and "sorted (map timestamp (files (run sample_lib [AddFiles sample_ids [sample_png, sample_pdf, sample_gif]])))"
    by blast+
  with a s r show ?thesis
    by blast
qed

text \<open>
  C10. \<open>addFiles\<close> and \<open>removeFile\<close> clear the merged output, but "Clear All" empties the
  file list and keeps it: after a PDF is added, merged and the list cleared, the output
  merged from the former list is still on display beside an empty list, whereas removing
  that only file clears it.
\<close>

theorem clear_all_keeps_merged_output:
  "files (run sample_lib [AddFiles sample_ids [sample_pdf], MergeFiles, ClearAll]) = []
   \<and> mergedPdfUrl (run sample_lib [AddFiles sample_ids [sample_pdf], MergeFiles, ClearAll])
       = Some (ObjectURL [1, 1])
   \<and> files (run sample_lib [AddFiles sample_ids [sample_pdf], MergeFiles, RemoveFile ''a'']) = []
   \<and> mergedPdfUrl (run sample_lib [AddFiles sample_ids [sample_pdf], MergeFiles, RemoveFile ''a''])
       = None"
  by (simp add: model_defs sample_defs)

end
